theory Spec2Isabelle
  imports Complex_Main
begin

section \<open>CorrelateRMS: pairing of RMS meteor observations\<close>

text \<open>
  A shallow embedding of \<^verbatim>\<open>src/wmpl/Trajectory/CorrelateRMS.py\<close>.
  Python floats and \<^verbatim>\<open>datetime\<close> values are idealised as \<^typ>\<open>real\<close> numbers
  (a datetime is a number of seconds since a fixed epoch), so rounding is not modelled.
  Every exception of the source is a value of \<open>error\<close>; a function that can raise
  returns \<open>error + 'a\<close>. Printing is a list of \<open>diagnostic\<close> values in program order.
\<close>

datatype error = IndexError | ZeroDivisionError | ValueError | OSError | KeyError

datatype diagnostic =
    Using_station string
  | Skipping_directory string
  | Could_not_parse string
  | Skipped_processed nat
  | Skipping_missing string
  | Loaded_observation string real string

subsection \<open>DatabaseJSON\<close>

record DatabaseJSON =
  db_file_path :: string
  processed_dirs :: "string \<rightharpoonup> string list"
  trajectories :: "real \<rightharpoonup> string"

text \<open>
  \<^verbatim>\<open>save\<close> opens \<^verbatim>\<open>db_file_path\<close> itself in mode \<^verbatim>\<open>'w'\<close> and writes
  the JSON text into it. The file system is a map from paths to contents, and the
  method is the sequence of its primitive file operations, so that the disk can be
  observed after any number of them. \<^verbatim>\<open>json.dumps\<close> is library code: the
  serialiser is the parameter \<open>dumps\<close>.
\<close>

datatype fs_op = Open_w string | Write string string

fun fs_step :: "(string \<rightharpoonup> string) \<Rightarrow> fs_op \<Rightarrow> (string \<rightharpoonup> string)" where
  "fs_step fs (Open_w p) = fs(p \<mapsto> [])"
| "fs_step fs (Write p s) = fs(p \<mapsto> (case fs p of None \<Rightarrow> s | Some old \<Rightarrow> old @ s))"

definition save_ops :: "(DatabaseJSON \<Rightarrow> string) \<Rightarrow> DatabaseJSON \<Rightarrow> fs_op list" where
  "save_ops dumps self =
     [Open_w (db_file_path self), Write (db_file_path self) (dumps self)]"

text \<open>The disk when the process dies after \<open>k\<close> file operations of \<^verbatim>\<open>save\<close>.\<close>

definition save_crash ::
  "nat \<Rightarrow> (DatabaseJSON \<Rightarrow> string) \<Rightarrow> DatabaseJSON \<Rightarrow> (string \<rightharpoonup> string) \<Rightarrow> (string \<rightharpoonup> string)" where
  "save_crash k dumps self fs = foldl fs_step fs (take k (save_ops dumps self))"

definition save ::
  "(DatabaseJSON \<Rightarrow> string) \<Rightarrow> DatabaseJSON \<Rightarrow> (string \<rightharpoonup> string) \<Rightarrow> (string \<rightharpoonup> string)" where
  "save dumps self fs = foldl fs_step fs (save_ops dumps self)"

definition addProcessedDir :: "DatabaseJSON \<Rightarrow> string \<Rightarrow> string \<Rightarrow> DatabaseJSON" where
  "addProcessedDir self station_name rel_proc_path =
     (case processed_dirs self station_name of
        None \<Rightarrow> self
      | Some dirs \<Rightarrow>
          if rel_proc_path \<notin> set dirs
          then self\<lparr>processed_dirs := (processed_dirs self)(station_name \<mapsto> dirs @ [rel_proc_path])\<rparr>
          else self)"

text \<open>The trajectory object is external; the ledger would use these two members of it.\<close>

record trajectory =
  jdt_ref :: real
  toJSON :: string

subsection \<open>MeteorPointRMS\<close>

record MeteorPointRMS =
  frame :: real
  time_rel :: real
  x :: real
  y :: real
  ra :: real
  dec :: real
  azim :: real
  alt :: real
  intensity_sum :: "real option"
  mag :: real

definition MeteorPointRMS_init ::
  "real \<Rightarrow> real \<Rightarrow> real \<Rightarrow> real \<Rightarrow> real \<Rightarrow> real \<Rightarrow> real \<Rightarrow> real \<Rightarrow> real \<Rightarrow> MeteorPointRMS" where
  "MeteorPointRMS_init frame' time_rel' x' y' ra' dec' azim' alt' mag' =
     \<lparr>frame = frame', time_rel = time_rel', x = x', y = y', ra = ra', dec = dec',
      azim = azim', alt = alt', intensity_sum = None, mag = mag'\<rparr>"

subsection \<open>MeteorObsRMS\<close>

text \<open>
  Of the platepar only the frame resolution is read here. The attribute
  \<^verbatim>\<open>platepar\<close> of the observation is the field \<open>obs_platepar\<close>.
\<close>

record platepar =
  X_res :: real
  Y_res :: real

record MeteorObsRMS =
  station_code :: string
  reference_dt :: real
  obs_platepar :: platepar
  data :: "MeteorPointRMS list"
  rel_proc_path :: string
  processed :: bool
  paired :: bool
  mean_dt :: real
  fov_beg :: bool
  fov_end :: bool

text \<open>
  List subscription as Python does it: an index below zero counts from the end, and an
  index outside the list raises \<^verbatim>\<open>IndexError\<close>. Division is \<^verbatim>\<open>/\<close> on Python
  floats, which raises on a zero divisor. (On numpy scalars it would give a
  not-a-number instead; the theorems below are about sequences on which no divisor is
  zero, or about the \<^verbatim>\<open>IndexError\<close>, which is raised before any division.)
\<close>

definition getitem :: "'a list \<Rightarrow> int \<Rightarrow> error + 'a" where
  "getitem xs i =
     (if 0 \<le> i \<and> i < int (length xs) then Inr (xs ! nat i)
      else if i < 0 \<and> - int (length xs) \<le> i then Inr (xs ! nat (int (length xs) + i))
      else Inl IndexError)"

definition true_div :: "real \<Rightarrow> real \<Rightarrow> error + real" where
  "true_div a b = (if b = 0 then Inl ZeroDivisionError else Inr (a / b))"

text \<open>
  The expression
  \<^verbatim>\<open>(self.data[a].c - self.data[b].c)/(self.data[a].frame - self.data[b].frame)\<close>
  of lines 145 to 148 and 166 to 169, for the coordinate \<open>c\<close>.
\<close>

definition per_frame ::
  "(MeteorPointRMS \<Rightarrow> real) \<Rightarrow> MeteorPointRMS list \<Rightarrow> int \<Rightarrow> int \<Rightarrow> error + real" where
  "per_frame c ds a b =
     (case getitem ds a of
        Inl e \<Rightarrow> Inl e
      | Inr pa \<Rightarrow>
          (case getitem ds b of
             Inl e \<Rightarrow> Inl e
           | Inr pb \<Rightarrow> true_div (c pa - c pb) (frame pa - frame pb)))"

text \<open>
  Lines 144 to 162: the velocity over the first half, the point two frames before the
  first pick, the check against the frame, and the working sequence after it.
\<close>

definition fov_beg_stage ::
  "platepar \<Rightarrow> MeteorPointRMS list \<Rightarrow> nat \<Rightarrow> error + (bool \<times> MeteorPointRMS list)" where
  "fov_beg_stage pp ds half_index =
     (case per_frame x ds (int half_index) 0 of
        Inl e \<Rightarrow> Inl e
      | Inr dxdf_beg \<Rightarrow>
     (case per_frame y ds (int half_index) 0 of
        Inl e \<Rightarrow> Inl e
      | Inr dydf_beg \<Rightarrow>
     (case getitem ds 0 of
        Inl e \<Rightarrow> Inl e
      | Inr first \<Rightarrow>
          let x_pre_begin = x first - 2 * dxdf_beg;
              y_pre_begin = y first - 2 * dydf_beg
          in if 0 < x_pre_begin \<and> x_pre_begin \<le> X_res pp \<and> 0 < y_pre_begin
                \<and> y_pre_begin < Y_res pp
             then Inr (True, ds)
             else Inr (False, drop 1 ds))))"

text \<open>
  Lines 165 to 183: the same at the end of the track, on the working sequence, with the
  \<^verbatim>\<open>half_index\<close> computed at line 141.
\<close>

definition fov_end_stage ::
  "platepar \<Rightarrow> MeteorPointRMS list \<Rightarrow> nat \<Rightarrow> error + (bool \<times> MeteorPointRMS list)" where
  "fov_end_stage pp ds half_index =
     (case per_frame x ds (- 1) (int half_index) of
        Inl e \<Rightarrow> Inl e
      | Inr dxdf_end \<Rightarrow>
     (case per_frame y ds (- 1) (int half_index) of
        Inl e \<Rightarrow> Inl e
      | Inr dydf_end \<Rightarrow>
     (case getitem ds (- 1) of
        Inl e \<Rightarrow> Inl e
      | Inr final \<Rightarrow>
          let x_post_end = x final + 2 * dxdf_end;
              y_post_end = y final + 2 * dydf_end
          in if 0 < x_post_end \<and> x_post_end \<le> X_res pp \<and> 0 < y_post_end
                \<and> y_post_end \<le> Y_res pp
             then Inr (True, ds)
             else Inr (False, butlast ds))))"

text \<open>
  Lines 132 and 133. \<^verbatim>\<open>np.mean\<close> of no values is not a number, which
  \<^verbatim>\<open>datetime.timedelta\<close> refuses with \<^verbatim>\<open>ValueError\<close>.
\<close>

definition mean_datetime :: "real \<Rightarrow> MeteorPointRMS list \<Rightarrow> error + real" where
  "mean_datetime ref ds =
     (if ds = [] then Inl ValueError
      else Inr (ref + sum_list (map time_rel ds) / real (length ds)))"

definition MeteorObsRMS_init ::
  "string \<Rightarrow> real \<Rightarrow> platepar \<Rightarrow> MeteorPointRMS list \<Rightarrow> string \<Rightarrow> error + MeteorObsRMS" where
  "MeteorObsRMS_init station reference pp ds rel_path =
     (case mean_datetime reference ds of
        Inl e \<Rightarrow> Inl e
      | Inr mean \<Rightarrow>
          let half_index = length ds div 2 in
          (case fov_beg_stage pp ds half_index of
             Inl e \<Rightarrow> Inl e
           | Inr (beg, ds1) \<Rightarrow>
               (case fov_end_stage pp ds1 half_index of
                  Inl e \<Rightarrow> Inl e
                | Inr (en, ds2) \<Rightarrow>
                    Inr \<lparr>station_code = station, reference_dt = reference, obs_platepar = pp,
                         data = ds2, rel_proc_path = rel_path, processed = False,
                         paired = False, mean_dt = mean, fov_beg = beg, fov_end = en\<rparr>)))"

definition addTrajectory :: "DatabaseJSON \<Rightarrow> trajectory \<Rightarrow> MeteorObsRMS list \<Rightarrow> DatabaseJSON" where
  "addTrajectory self traj met_obs_list = self"

subsection \<open>RMSDataHandle\<close>

text \<open>
  \<^verbatim>\<open>loadStations\<close>. The listing of the root directory is a list of names, each with
  the answer of \<^verbatim>\<open>os.path.isdir\<close>. The station pattern is
  \<^verbatim>\<open>^[A-Z]{2}[A-Z0-9]{4}$\<close> under \<^verbatim>\<open>re.match\<close>: two characters of \<^verbatim>\<open>A-Z\<close>, four
  of \<^verbatim>\<open>A-Z0-9\<close>, and then \<^verbatim>\<open>$\<close>, which in Python matches at the end of the string
  and also just before a newline that ends the string.
\<close>

definition upper_AZ :: "char \<Rightarrow> bool" where
  "upper_AZ c = (65 \<le> (of_char c :: nat) \<and> (of_char c :: nat) \<le> 90)"

definition digit_09 :: "char \<Rightarrow> bool" where
  "digit_09 c = (48 \<le> (of_char c :: nat) \<and> (of_char c :: nat) \<le> 57)"

definition re_match_station :: "string \<Rightarrow> bool" where
  "re_match_station dir_name =
     (length (take 6 dir_name) = 6
      \<and> list_all upper_AZ (take 2 dir_name)
      \<and> list_all (\<lambda>c. upper_AZ c \<or> digit_09 c) (take 4 (drop 2 dir_name))
      \<and> (drop 6 dir_name = [] \<or> drop 6 dir_name = [CHR 0x0A]))"

fun loadStations_loop ::
  "(string \<times> bool) list \<Rightarrow> string list \<Rightarrow> diagnostic list \<Rightarrow> string list \<times> diagnostic list" where
  "loadStations_loop [] station_list out = (station_list, out)"
| "loadStations_loop ((dir_name, isdir) # rest) station_list out =
     (if isdir then
        (if re_match_station dir_name
         then loadStations_loop rest (station_list @ [dir_name]) (out @ [Using_station dir_name])
         else loadStations_loop rest station_list (out @ [Skipping_directory dir_name]))
      else loadStations_loop rest station_list out)"

definition loadStations :: "(string \<times> bool) list \<Rightarrow> string list \<times> diagnostic list" where
  "loadStations entries = loadStations_loop entries [] []"

text \<open>\<^verbatim>\<open>findTimePairs\<close>, with \<^verbatim>\<open>found_pairs\<close> as the accumulator of the loop.\<close>

fun findTimePairs_loop ::
  "MeteorObsRMS \<Rightarrow> MeteorObsRMS list \<Rightarrow> real \<Rightarrow> MeteorObsRMS list \<Rightarrow> MeteorObsRMS list" where
  "findTimePairs_loop met_obs [] max_toffset found_pairs = found_pairs"
| "findTimePairs_loop met_obs (met_obs2 # rest) max_toffset found_pairs =
     (if station_code met_obs = station_code met_obs2
      then findTimePairs_loop met_obs rest max_toffset found_pairs
      else if \<bar>mean_dt met_obs - mean_dt met_obs2\<bar> \<le> max_toffset
      then findTimePairs_loop met_obs rest max_toffset (found_pairs @ [met_obs2])
      else findTimePairs_loop met_obs rest max_toffset found_pairs)"

definition findTimePairs ::
  "MeteorObsRMS \<Rightarrow> MeteorObsRMS list \<Rightarrow> real \<Rightarrow> MeteorObsRMS list" where
  "findTimePairs met_obs unprocessed_observations max_toffset =
     findTimePairs_loop met_obs unprocessed_observations max_toffset []"

text \<open>
  \<^verbatim>\<open>loadUnprocessedObservations\<close>. An entry of the processing list is the list
  \<^verbatim>\<open>[station_name, night_path_rel, night_path, night_dt]\<close> of line 270. The state is
  the ledger in memory, the disk and what was printed. The environment is what the
  code reads from outside:
  \<^item> \<open>isdir\<close> and \<open>listdir\<close>, the directories of the file system and their entries;
  \<^item> \<open>strptime\<close>, \<^verbatim>\<open>datetime.strptime\<close> with the format \<^verbatim>\<open>%Y%m%d_%H%M%S\<close>,
    \<open>None\<close> where it raises;
  \<^item> \<open>load_detections\<close>, lines 350 to 376 for a folder with both data files: reading
    and parsing the two files may raise (the outer error); otherwise there is one item
    for each detection, which is the \<^verbatim>\<open>KeyError\<close> of line 362 when the platepars
    have no entry for its image, and else the reference time, the platepar and the
    picks.
\<close>

type_synonym proc_entry = "string \<times> string \<times> string \<times> real option"

type_synonym detection = "real \<times> platepar \<times> MeteorPointRMS list"

record handle =
  db :: DatabaseJSON
  disk :: "string \<rightharpoonup> string"
  printed :: "diagnostic list"

record environment =
  isdir :: "string \<Rightarrow> bool"
  listdir :: "string \<Rightarrow> string list"
  strptime :: "string \<Rightarrow> real option"
  load_detections ::
    "string \<Rightarrow> string \<Rightarrow> string \<Rightarrow> string \<Rightarrow> error + (error + detection) list"

text \<open>
  \<^verbatim>\<open>os.listdir\<close> of line 325, on the path of a unit. \<^verbatim>\<open>findUnprocessedFolders\<close>
  makes a unit of every entry of a station directory, so the path may be a regular
  file, and it may have gone since; the listing then raises.
\<close>

definition os_listdir :: "environment \<Rightarrow> string \<Rightarrow> error + string list" where
  "os_listdir env path = (if isdir env path then Inr (listdir env path) else Inl OSError)"

definition startswith :: "string \<Rightarrow> string \<Rightarrow> bool" where
  "startswith s p = (take (length p) s = p)"

definition endswith :: "string \<Rightarrow> string \<Rightarrow> bool" where
  "endswith s p = (length p \<le> length s \<and> drop (length s - length p) s = p)"

text \<open>\<^verbatim>\<open>p in s\<close> for strings.\<close>

fun contains :: "string \<Rightarrow> string \<Rightarrow> bool" where
  "contains p [] = (p = [])"
| "contains p (c # cs) = (startswith (c # cs) p \<or> contains p cs)"

text \<open>
  Lines 321 to 335: the two tests on a name of the folder, and the loop over the names;
  the last matching name of each kind is the one kept.
\<close>

definition is_ftpdetectinfo :: "string \<Rightarrow> bool" where
  "is_ftpdetectinfo name =
     (startswith name ''FTPdetectinfo'' \<and> endswith name ''.txt''
      \<and> \<not> contains ''backup'' name \<and> \<not> contains ''uncalibrated'' name)"

definition is_platepars :: "string \<Rightarrow> bool" where
  "is_platepars name = (name = ''platepars_all_recalibrated.json'')"

fun find_data_files ::
  "string list \<Rightarrow> string option \<Rightarrow> string option \<Rightarrow> string option \<times> string option" where
  "find_data_files [] ftpdetectinfo_name platepar_recalibrated_name =
     (ftpdetectinfo_name, platepar_recalibrated_name)"
| "find_data_files (name # names) ftpdetectinfo_name platepar_recalibrated_name =
     (if is_ftpdetectinfo name
      then find_data_files names (Some name) platepar_recalibrated_name
      else if is_platepars name
      then find_data_files names ftpdetectinfo_name (Some name)
      else find_data_files names ftpdetectinfo_name platepar_recalibrated_name)"

text \<open>
  \<^verbatim>\<open>findUnprocessedFolders\<close>. \<^verbatim>\<open>os.path.join\<close> of two components,
  \<^verbatim>\<open>str.split\<close> on one character and \<^verbatim>\<open>str.join\<close> are written out.
\<close>

definition os_path_join :: "string \<Rightarrow> string \<Rightarrow> string" where
  "os_path_join a b =
     (if startswith b ''/'' then b
      else if a = [] \<or> endswith a ''/'' then a @ b
      else a @ ''/'' @ b)"

fun py_split :: "char \<Rightarrow> string \<Rightarrow> string list" where
  "py_split sep [] = [[]]"
| "py_split sep (c # cs) =
     (if c = sep then [] # py_split sep cs
      else (case py_split sep cs of [] \<Rightarrow> [[c]] | w # ws \<Rightarrow> (c # w) # ws))"

fun py_join :: "string \<Rightarrow> string list \<Rightarrow> string" where
  "py_join sep [] = []"
| "py_join sep [w] = w"
| "py_join sep (w # v # ws) = w @ sep @ py_join sep (v # ws)"

text \<open>Lines 261 to 266: the date of a night folder, \<open>None\<close> where parsing raises.\<close>

definition night_datetime :: "environment \<Rightarrow> string \<Rightarrow> real option" where
  "night_datetime env night_name =
     strptime env (py_join ''_'' (take 2 (drop 1 (py_split (CHR ''_'') night_name))))"

text \<open>
  The loop of line 255 over the folders of one station; \<open>dirs\<close> is
  \<^verbatim>\<open>self.db.processed_dirs[station_name]\<close>, which the loop only reads. The
  stations come from \<^verbatim>\<open>loadStations\<close>, which keeps directories only, so the listing
  of a station directory is taken to succeed.
\<close>

fun scan_nights ::
  "environment \<Rightarrow> string list \<Rightarrow> string \<Rightarrow> string \<Rightarrow> string list \<Rightarrow> proc_entry list \<Rightarrow> nat
     \<Rightarrow> diagnostic list \<Rightarrow> proc_entry list \<times> nat \<times> diagnostic list" where
  "scan_nights env dirs station_path station_name [] processing_list skipped_dirs out =
     (processing_list, skipped_dirs, out)"
| "scan_nights env dirs station_path station_name (night_name # rest) processing_list
       skipped_dirs out =
     (let night_path = os_path_join station_path night_name;
          night_path_rel = os_path_join station_name night_name;
          night_dt = night_datetime env night_name;
          out' = (if night_dt = None then out @ [Could_not_parse night_path] else out)
      in if night_path_rel \<notin> set dirs
         then scan_nights env dirs station_path station_name rest
                (processing_list @ [(station_name, night_path_rel, night_path, night_dt)])
                skipped_dirs out'
         else scan_nights env dirs station_path station_name rest processing_list
                (skipped_dirs + 1) out')"

fun scan_stations ::
  "environment \<Rightarrow> string \<Rightarrow> string list \<Rightarrow> DatabaseJSON \<Rightarrow> proc_entry list \<Rightarrow> nat
     \<Rightarrow> diagnostic list \<Rightarrow> proc_entry list \<times> DatabaseJSON \<times> nat \<times> diagnostic list" where
  "scan_stations env dir_path [] dbs processing_list skipped_dirs out =
     (processing_list, dbs, skipped_dirs, out)"
| "scan_stations env dir_path (station_name # rest) dbs processing_list skipped_dirs out =
     (let station_path = os_path_join dir_path station_name;
          dbs' = (if processed_dirs dbs station_name = None
                  then dbs\<lparr>processed_dirs := (processed_dirs dbs)(station_name \<mapsto> [])\<rparr>
                  else dbs);
          dirs = (case processed_dirs dbs' station_name of None \<Rightarrow> [] | Some ds \<Rightarrow> ds)
      in case scan_nights env dirs station_path station_name (listdir env station_path)
                processing_list skipped_dirs out of
           (processing_list', skipped_dirs', out') \<Rightarrow>
             scan_stations env dir_path rest dbs' processing_list' skipped_dirs' out')"

definition findUnprocessedFolders ::
  "environment \<Rightarrow> string \<Rightarrow> DatabaseJSON \<Rightarrow> string list \<Rightarrow> diagnostic list
     \<Rightarrow> proc_entry list \<times> DatabaseJSON \<times> diagnostic list" where
  "findUnprocessedFolders env dir_path dbs station_list out =
     (case scan_stations env dir_path station_list dbs [] 0 out of
        (processing_list, dbs', skipped_dirs, out') \<Rightarrow>
          (processing_list, dbs',
           if skipped_dirs \<noteq> 0 then out' @ [Skipped_processed skipped_dirs] else out'))"

text \<open>Lines 359 to 385: one observation object for each detection of the folder.\<close>

fun format_observations ::
  "string \<Rightarrow> string \<Rightarrow> (error + detection) list \<Rightarrow> MeteorObsRMS list
     \<Rightarrow> diagnostic list \<Rightarrow> error + (MeteorObsRMS list \<times> diagnostic list)" where
  "format_observations station rel_path [] met_obs_list out = Inr (met_obs_list, out)"
| "format_observations station rel_path (Inl e # rest) met_obs_list out = Inl e"
| "format_observations station rel_path (Inr (reference, pp, meteor_data) # rest)
       met_obs_list out =
     (case MeteorObsRMS_init station reference pp meteor_data rel_path of
        Inl e \<Rightarrow> Inl e
      | Inr met_obs \<Rightarrow>
          format_observations station rel_path rest (met_obs_list @ [met_obs])
            (out @ [Loaded_observation station (reference_dt met_obs) rel_path]))"

text \<open>
  Lines 321 to 385, what the loop does with an entry that the time range has not
  skipped: the list of observations and the state after it. When a data file is
  missing the ledger is marked in memory and the loop goes on to the next entry
  (\<^verbatim>\<open>continue\<close>, line 344); the \<^verbatim>\<open>self.db.save()\<close> of line 347 is reached only
  for a folder that has both files, before its observations are loaded. Writing the
  ledger file is taken to succeed.
\<close>

definition load_unit ::
  "environment \<Rightarrow> (DatabaseJSON \<Rightarrow> string) \<Rightarrow> string \<Rightarrow> string \<Rightarrow> string
     \<Rightarrow> MeteorObsRMS list \<Rightarrow> handle \<Rightarrow> error + (MeteorObsRMS list \<times> handle)" where
  "load_unit env dumps station rel_path proc_path met_obs_list self =
     (case os_listdir env proc_path of
        Inl e \<Rightarrow> Inl e
      | Inr names \<Rightarrow>
          (case find_data_files names None None of
             (ftpdetectinfo_name, platepar_recalibrated_name) \<Rightarrow>
               if ftpdetectinfo_name = None \<or> platepar_recalibrated_name = None
               then Inr (met_obs_list,
                      self\<lparr>printed := printed self @ [Skipping_missing rel_path],
                           db := addProcessedDir (db self) station rel_path\<rparr>)
               else
                 let saved = self\<lparr>disk := save dumps (db self) (disk self)\<rparr> in
                 (case load_detections env station proc_path (the ftpdetectinfo_name)
                         (the platepar_recalibrated_name) of
                    Inl e \<Rightarrow> Inl e
                  | Inr cams_met_obs_list \<Rightarrow>
                      (case format_observations station rel_path cams_met_obs_list
                              met_obs_list (printed saved) of
                         Inl e \<Rightarrow> Inl e
                       | Inr (met_obs_list', out) \<Rightarrow>
                           Inr (met_obs_list', saved\<lparr>printed := out\<rparr>)))))"

text \<open>
  Lines 309 to 385, the body of the loop for one entry: the test of lines 312 to 317,
  whose \<^verbatim>\<open>continue\<close> leaves the list and the state as they are, and then the rest.
\<close>

definition load_entry ::
  "environment \<Rightarrow> (DatabaseJSON \<Rightarrow> string) \<Rightarrow> proc_entry \<Rightarrow> (real \<times> real) option
     \<Rightarrow> MeteorObsRMS list \<Rightarrow> handle \<Rightarrow> error + (MeteorObsRMS list \<times> handle)" where
  "load_entry env dumps entry dt_range met_obs_list self =
     (case entry of (station, rel_path, proc_path, night_dt) \<Rightarrow>
        if (case dt_range of
              None \<Rightarrow> False
            | Some (dt_beg, dt_end) \<Rightarrow>
                (case night_dt of
                   None \<Rightarrow> False
                 | Some night \<Rightarrow> night < dt_beg \<or> night > dt_end))
        then Inr (met_obs_list, self)
        else load_unit env dumps station rel_path proc_path met_obs_list self)"

fun loadUnprocessedObservations_loop ::
  "environment \<Rightarrow> (DatabaseJSON \<Rightarrow> string) \<Rightarrow> proc_entry list \<Rightarrow> (real \<times> real) option
     \<Rightarrow> MeteorObsRMS list \<Rightarrow> handle \<Rightarrow> error + (MeteorObsRMS list \<times> handle)" where
  "loadUnprocessedObservations_loop env dumps [] dt_range met_obs_list self =
     Inr (met_obs_list, self)"
| "loadUnprocessedObservations_loop env dumps (entry # rest) dt_range met_obs_list self =
     (case load_entry env dumps entry dt_range met_obs_list self of
        Inl e \<Rightarrow> Inl e
      | Inr (met_obs_list', self') \<Rightarrow>
          loadUnprocessedObservations_loop env dumps rest dt_range met_obs_list' self')"

definition loadUnprocessedObservations ::
  "environment \<Rightarrow> (DatabaseJSON \<Rightarrow> string) \<Rightarrow> proc_entry list \<Rightarrow> (real \<times> real) option
     \<Rightarrow> handle \<Rightarrow> error + (MeteorObsRMS list \<times> handle)" where
  "loadUnprocessedObservations env dumps processing_list dt_range self =
     loadUnprocessedObservations_loop env dumps processing_list dt_range [] self"


text \<open>
  The words of the specification for the start-of-track test: the extrapolated point
  lies strictly inside \<open>[0,W] \<times> [0,H]\<close>. It is compared below with the test of
  lines 155 and 156.
\<close>

definition spec_strictly_inside :: "platepar \<Rightarrow> real \<Rightarrow> real \<Rightarrow> bool" where
  "spec_strictly_inside pp px py = (0 < px \<and> px < X_res pp \<and> 0 < py \<and> py < Y_res pp)"

subsection \<open>Example values\<close>

definition ledger_example :: DatabaseJSON where
  "ledger_example =
     \<lparr>db_file_path = ''processed_trajectories.json'',
      processed_dirs = Map.empty, trajectories = Map.empty\<rparr>"

text \<open>Stands for \<^verbatim>\<open>json.dumps\<close> in the closed examples: any non-empty text does.\<close>

definition dumps_example :: "DatabaseJSON \<Rightarrow> string" where
  "dumps_example self = ''{new ledger}''"

definition disk_example :: "string \<rightharpoonup> string" where
  "disk_example = [''processed_trajectories.json'' \<mapsto> ''{old ledger}'']"

definition traj_example :: trajectory where
  "traj_example = \<lparr>jdt_ref = 2458672.3, toJSON = ''{}''\<rparr>"

text \<open>A 720 by 576 frame, and a pick at a frame with pixel coordinates, 25 frames a second.\<close>

definition pp_example :: platepar where
  "pp_example = \<lparr>X_res = 720, Y_res = 576\<rparr>"

definition pick :: "real \<Rightarrow> real \<Rightarrow> real \<Rightarrow> MeteorPointRMS" where
  "pick f px py = MeteorPointRMS_init f (f / 25) px py 0 0 0 0 0"

definition track_outside :: "MeteorPointRMS list" where
  "track_outside = [pick 0 1 12, pick 1 4 13, pick 2 7 14, pick 3 10 15, pick 4 13 16]"

definition track_inside :: "MeteorPointRMS list" where
  "track_inside = [pick 0 102 104, pick 1 103 106, pick 2 104 108, pick 3 105 110]"

text \<open>
  Two tracks that lie in the frame. The first moves left from \<open>x = 718\<close>, so that the
  point two frames before it is at \<open>(720, 100)\<close>, on the right edge; the second moves
  up from \<open>y = 574\<close>, so that the point is at \<open>(100, 576)\<close>, on the bottom edge.
\<close>

definition track_right_edge :: "MeteorPointRMS list" where
  "track_right_edge =
     [pick 0 718 102, pick 1 717 103, pick 2 716 104, pick 3 715 105, pick 4 714 106]"

definition track_bottom_edge :: "MeteorPointRMS list" where
  "track_bottom_edge =
     [pick 0 102 574, pick 1 103 573, pick 2 104 572, pick 3 105 571, pick 4 106 570]"

text \<open>
  An observation of the track above whose mean time is \<open>t\<close>; a root
  \<^verbatim>\<open>/data\<close> whose station \<^verbatim>\<open>AB1234\<close> has one night folder with both data files
  and an empty folder \<^verbatim>\<open>broken\<close>, no other path being a directory; and a handle whose
  ledger has the station registered and whose disk has no ledger file yet.
\<close>

definition obs_example :: "string \<Rightarrow> real \<Rightarrow> MeteorObsRMS" where
  "obs_example station t =
     \<lparr>station_code = station, reference_dt = t - 0.06, obs_platepar = pp_example,
      data = track_inside, rel_proc_path = station @ ''/night'', processed = False,
      paired = False, mean_dt = t, fov_beg = True, fov_end = True\<rparr>"

definition night_example :: string where
  "night_example = ''AB1234_20190707_192835_241084_detected''"

definition env_example :: environment where
  "env_example =
     \<lparr>isdir = (\<lambda>path. path = ''/data'' \<or> path = ''/data/AB1234''
                 \<or> path = ''/data/AB1234/broken''
                 \<or> path = ''/data/AB1234/'' @ night_example),
      listdir = (\<lambda>path.
        if path = ''/data/AB1234'' then [night_example, ''broken'']
        else if path = ''/data/AB1234/'' @ night_example
        then [''FTPdetectinfo_AB1234_20190707_192835_241084.txt'',
              ''platepars_all_recalibrated.json'']
        else []),
      strptime = (\<lambda>text. if text = ''20190707_192835'' then Some 1562527715 else None),
      load_detections =
        (\<lambda>station path ftp platepars. Inr [Inr (99.94, pp_example, track_inside)])\<rparr>"

definition handle_example :: handle where
  "handle_example =
     \<lparr>db = ledger_example\<lparr>processed_dirs := [''AB1234'' \<mapsto> []]\<rparr>,
      disk = Map.empty, printed = []\<rparr>"

section \<open>Properties of the ledger\<close>

lemma save_eq: "save dumps self fs = fs(db_file_path self \<mapsto> dumps self)"
  by (simp add: save_def save_ops_def)

lemma save_crash_other:
  "q \<noteq> db_file_path self \<Longrightarrow> save_crash k dumps self fs q = fs q"
proof -
  assume q: "q \<noteq> db_file_path self"
  have "k = 0 \<or> k = 1 \<or> 2 \<le> k" by arith
  then show ?thesis
    using q by (auto simp: save_crash_def save_ops_def)
qed

text \<open>
  C1 (as amended). \<^verbatim>\<open>save\<close> works in place: it opens the database path itself for
  writing, which truncates the file, and then writes the serialised ledger into that
  same file. When it runs to completion the file holds the serialised ledger; when the
  process dies right after the open, the file at the database path is empty; and no
  other path (no temporary file) is ever written.
\<close>

theorem save_in_place:
  "save dumps self fs (db_file_path self) = Some (dumps self) \<and>
   save_crash 1 dumps self fs (db_file_path self) = Some [] \<and>
   (\<forall>k q. q \<noteq> db_file_path self \<longrightarrow> save_crash k dumps self fs q = fs q)"
  by (simp add: save_eq save_crash_other) (simp add: save_crash_def save_ops_def)

theorem save_in_place_witness:
  "save dumps_example ledger_example disk_example ''processed_trajectories.json''
     = Some ''{new ledger}'' \<and>
   save_crash 1 dumps_example ledger_example disk_example ''processed_trajectories.json''
     = Some [] \<and>
   save_crash 1 dumps_example ledger_example disk_example ''processed_trajectories.tmp''
     = None"
  using save_in_place [of dumps_example ledger_example disk_example]
  by (simp add: ledger_example_def dumps_example_def disk_example_def)

text \<open>
  C1 as stated fails: with a complete old ledger on disk, the disk after the first file
  operation of \<^verbatim>\<open>save\<close> holds neither the old file nor the new one, but an empty file.
\<close>

theorem save_crash_not_atomic:
  "save_crash 1 dumps_example ledger_example disk_example (db_file_path ledger_example)
     = Some [] \<and>
   save_crash 1 dumps_example ledger_example disk_example (db_file_path ledger_example)
     \<noteq> disk_example (db_file_path ledger_example) \<and>
   save_crash 1 dumps_example ledger_example disk_example (db_file_path ledger_example)
     \<noteq> save dumps_example ledger_example disk_example (db_file_path ledger_example)"
  by (simp add: save_crash_def save_def save_ops_def ledger_example_def dumps_example_def
      disk_example_def)

text \<open>
  C2. The claim asks that after recording a trajectory its key is in the trajectories
  map. \<^verbatim>\<open>addTrajectory\<close> is the only method that could record one, and its body is
  \<^verbatim>\<open>pass\<close>: on the empty ledger the key of the recorded trajectory is still absent.
\<close>

theorem addTrajectory_records_nothing:
  "trajectories (addTrajectory ledger_example traj_example []) (jdt_ref traj_example) = None"
  by (simp add: addTrajectory_def ledger_example_def)

text \<open>
  \<^verbatim>\<open>findUnprocessedFolders\<close> registers every station of the list that the ledger does
  not know yet, with an empty list, and changes no other entry of \<^verbatim>\<open>processed_dirs\<close>.
\<close>

lemma scan_stations_processed_dirs:
  "scan_stations env dir_path station_list dbs processing_list skipped_dirs out
     = (processing_list', dbs', skipped_dirs', out') \<Longrightarrow>
   processed_dirs dbs' station
     = (if processed_dirs dbs station = None \<and> station \<in> set station_list then Some []
        else processed_dirs dbs station)"
proof (induction station_list arbitrary: dbs processing_list skipped_dirs out)
  case Nil
  then show ?case by simp
next
  case (Cons station_name rest)
  then show ?case
    by (auto simp: Let_def split: prod.splits if_splits)
qed

lemma findUnprocessedFolders_registers:
  assumes "findUnprocessedFolders env dir_path dbs station_list out = (processing_list, dbs', out')"
  shows "processed_dirs dbs' station
     = (if processed_dirs dbs station = None \<and> station \<in> set station_list then Some []
        else processed_dirs dbs station)"
  using assms scan_stations_processed_dirs [of env dir_path station_list dbs "[]" 0 out]
  by (auto simp: findUnprocessedFolders_def split: prod.splits)

lemma findUnprocessedFolders_example:
  "findUnprocessedFolders env_example ''/data'' ledger_example [''AB1234''] []
     = ([(''AB1234'', ''AB1234/'' @ night_example, ''/data/AB1234/'' @ night_example,
            Some 1562527715),
         (''AB1234'', ''AB1234/broken'', ''/data/AB1234/broken'', None)],
        ledger_example\<lparr>processed_dirs := [''AB1234'' \<mapsto> []]\<rparr>,
        [Could_not_parse ''/data/AB1234/broken''])"
  by (simp add: findUnprocessedFolders_def env_example_def ledger_example_def night_example_def
      os_path_join_def startswith_def endswith_def night_datetime_def Let_def)

text \<open>
  C9. \<^verbatim>\<open>addProcessedDir\<close> on a station that is not a key of \<^verbatim>\<open>processed_dirs\<close>
  returns the ledger unchanged: nothing is recorded, no key is created, nothing is
  raised. On a registered station the path is in the station's list afterwards, and
  \<^verbatim>\<open>findUnprocessedFolders\<close> registers the stations it is given, so that a mark made
  after it is recorded.
\<close>

theorem addProcessedDir_unregistered:
  "(processed_dirs self station_name = None \<longrightarrow>
      addProcessedDir self station_name rel_path = self) \<and>
   (\<forall>dirs. processed_dirs self station_name = Some dirs \<longrightarrow>
      processed_dirs (addProcessedDir self station_name rel_path) station_name
        = Some (if rel_path \<in> set dirs then dirs else dirs @ [rel_path])) \<and>
   (station_name \<in> set station_list \<longrightarrow>
      (case findUnprocessedFolders env dir_path self station_list out of
         (processing_list, self', out') \<Rightarrow>
           \<exists>dirs. processed_dirs (addProcessedDir self' station_name rel_path) station_name
                     = Some dirs \<and> rel_path \<in> set dirs))"
proof -
  have "\<exists>dirs. processed_dirs (addProcessedDir self' station_name rel_path) station_name
                     = Some dirs \<and> rel_path \<in> set dirs"
    if "station_name \<in> set station_list"
      and "findUnprocessedFolders env dir_path self station_list out = (processing_list, self', out')"
    for processing_list self' out'
  proof -
    from findUnprocessedFolders_registers [OF that(2), of station_name] that(1)
    obtain ds where "processed_dirs self' station_name = Some ds"
      by (cases "processed_dirs self station_name") auto
    then show ?thesis by (simp add: addProcessedDir_def)
  qed
  then show ?thesis
    by (auto simp: addProcessedDir_def split: prod.splits)
qed

theorem addProcessedDir_unregistered_witness:
  "processed_dirs ledger_example ''AB1234'' = None \<and>
   addProcessedDir ledger_example ''AB1234'' ''AB1234/broken'' = ledger_example \<and>
   processed_dirs (ledger_example\<lparr>processed_dirs := [''AB1234'' \<mapsto> []]\<rparr>) ''AB1234'' = Some [] \<and>
   processed_dirs
     (addProcessedDir (ledger_example\<lparr>processed_dirs := [''AB1234'' \<mapsto> []]\<rparr>) ''AB1234''
        ''AB1234/broken'') ''AB1234''
     = Some [''AB1234/broken''] \<and>
   ''AB1234'' \<in> set [''AB1234''] \<and>
   processed_dirs
     (addProcessedDir
        (fst (snd (findUnprocessedFolders env_example ''/data'' ledger_example [''AB1234''] [])))
        ''AB1234'' ''AB1234/broken'') ''AB1234''
     = Some [''AB1234/broken'']"
  using addProcessedDir_unregistered [of ledger_example "''AB1234''" "''AB1234/broken''"
      "[''AB1234'']" env_example "''/data''" "[]"]
    addProcessedDir_unregistered [of "ledger_example\<lparr>processed_dirs := [''AB1234'' \<mapsto> []]\<rparr>"
      "''AB1234''" "''AB1234/broken''" "[]" env_example "''/data''" "[]"]
  by (simp add: findUnprocessedFolders_example addProcessedDir_def)
     (simp add: ledger_example_def)

section \<open>Properties of the field-of-view estimate\<close>

lemma getitem_nat: "i < length xs \<Longrightarrow> getitem xs (int i) = Inr (xs ! i)"
  by (simp add: getitem_def)

lemma getitem_zero: "xs \<noteq> [] \<Longrightarrow> getitem xs 0 = Inr (xs ! 0)"
  by (simp add: getitem_def)

lemma getitem_minus_one: "xs \<noteq> [] \<Longrightarrow> getitem xs (- 1) = Inr (last xs)"
  by (cases xs rule: rev_cases) (auto simp: getitem_def nth_append)

lemma getitem_Inr_nat: "getitem xs (int i) = Inr p \<Longrightarrow> i < length xs \<and> p = xs ! i"
  by (auto simp: getitem_def split: if_splits)

lemma getitem_Inr_last: "getitem xs (- 1) = Inr p \<Longrightarrow> xs \<noteq> [] \<and> p = last xs"
  by (cases xs rule: rev_cases) (auto simp: getitem_def nth_append split: if_splits)

lemma per_frame_beg:
  assumes "h < length ds" "frame (ds ! h) \<noteq> frame (ds ! 0)"
  shows "per_frame c ds (int h) 0 = Inr ((c (ds ! h) - c (ds ! 0)) / (frame (ds ! h) - frame (ds ! 0)))"
proof -
  from assms(1) have ne: "ds \<noteq> []" by auto
  show ?thesis
    using assms by (simp add: per_frame_def getitem_nat getitem_zero [OF ne] true_div_def)
qed

lemma per_frame_Inr_beg:
  assumes "per_frame c ds (int h) 0 = Inr v"
  shows "v = (c (ds ! h) - c (ds ! 0)) / (frame (ds ! h) - frame (ds ! 0))"
  using assms
  by (auto simp: per_frame_def true_div_def getitem_def split: sum.splits if_splits)

lemma per_frame_Inr_end:
  assumes "per_frame c ds (- 1) (int h) = Inr v"
  shows "v = (c (last ds) - c (ds ! h)) / (frame (last ds) - frame (ds ! h))"
proof -
  from assms obtain pa pb where a: "getitem ds (- 1) = Inr pa" and b: "getitem ds (int h) = Inr pb"
    and v: "true_div (c pa - c pb) (frame pa - frame pb) = Inr v"
    by (auto simp: per_frame_def split: sum.splits)
  from getitem_Inr_last [OF a] getitem_Inr_nat [OF b] v show ?thesis
    by (auto simp: true_div_def split: if_splits)
qed

lemma fov_beg_stage_total:
  assumes len: "2 \<le> length ds" and inc: "sorted_wrt (<) (map frame ds)"
  shows "let h = length ds div 2;
       x_pre = x (ds ! 0) - 2 * ((x (ds ! h) - x (ds ! 0)) / (frame (ds ! h) - frame (ds ! 0)));
       y_pre = y (ds ! 0) - 2 * ((y (ds ! h) - y (ds ! 0)) / (frame (ds ! h) - frame (ds ! 0)));
       inside = (0 < x_pre \<and> x_pre \<le> X_res pp \<and> 0 < y_pre \<and> y_pre < Y_res pp)
   in fov_beg_stage pp ds h = Inr (inside, if inside then ds else drop 1 ds)"
proof -
  define h where "h = length ds div 2"
  from len have h: "0 < h" "h < length ds" by (auto simp: h_def)
  from inc h have lt: "map frame ds ! 0 < map frame ds ! h"
    by (intro sorted_wrt_nth_less) auto
  from h have ne: "ds \<noteq> []" by auto
  with lt h have fr: "frame (ds ! h) \<noteq> frame (ds ! 0)" by (simp add: nth_map)
  show ?thesis
    unfolding Let_def h_def [symmetric]
    by (simp add: fov_beg_stage_def per_frame_beg [OF h(2) fr] getitem_zero [OF ne] Let_def)
qed

lemma fov_beg_stage_Inr:
  assumes "fov_beg_stage pp ds h = Inr (b, ds')"
  shows "b = (0 < x (ds ! 0) - 2 * ((x (ds ! h) - x (ds ! 0)) / (frame (ds ! h) - frame (ds ! 0)))
            \<and> x (ds ! 0) - 2 * ((x (ds ! h) - x (ds ! 0)) / (frame (ds ! h) - frame (ds ! 0))) \<le> X_res pp
            \<and> 0 < y (ds ! 0) - 2 * ((y (ds ! h) - y (ds ! 0)) / (frame (ds ! h) - frame (ds ! 0)))
            \<and> y (ds ! 0) - 2 * ((y (ds ! h) - y (ds ! 0)) / (frame (ds ! h) - frame (ds ! 0))) < Y_res pp)"
    and "ds' = (if b then ds else drop 1 ds)"
proof -
  from assms obtain vx vy p where vx: "per_frame x ds (int h) 0 = Inr vx"
    and vy: "per_frame y ds (int h) 0 = Inr vy" and p: "getitem ds 0 = Inr p"
    by (auto simp: fov_beg_stage_def split: sum.splits)
  from p have p0: "p = ds ! 0" using getitem_Inr_nat [of ds 0 p] by simp
  note e = per_frame_Inr_beg [OF vx] per_frame_Inr_beg [OF vy]
  from assms vx vy p show "b = (0 < x (ds ! 0) - 2 * ((x (ds ! h) - x (ds ! 0)) / (frame (ds ! h) - frame (ds ! 0)))
            \<and> x (ds ! 0) - 2 * ((x (ds ! h) - x (ds ! 0)) / (frame (ds ! h) - frame (ds ! 0))) \<le> X_res pp
            \<and> 0 < y (ds ! 0) - 2 * ((y (ds ! h) - y (ds ! 0)) / (frame (ds ! h) - frame (ds ! 0)))
            \<and> y (ds ! 0) - 2 * ((y (ds ! h) - y (ds ! 0)) / (frame (ds ! h) - frame (ds ! 0))) < Y_res pp)"
    using e p0 by (auto simp: fov_beg_stage_def Let_def split: if_splits)
  from assms vx vy p show "ds' = (if b then ds else drop 1 ds)"
    by (auto simp: fov_beg_stage_def Let_def split: if_splits)
qed

lemma fov_end_stage_Inr:
  assumes "fov_end_stage pp ds h = Inr (b, ds')"
  shows "b = (0 < x (last ds) + 2 * ((x (last ds) - x (ds ! h)) / (frame (last ds) - frame (ds ! h)))
            \<and> x (last ds) + 2 * ((x (last ds) - x (ds ! h)) / (frame (last ds) - frame (ds ! h))) \<le> X_res pp
            \<and> 0 < y (last ds) + 2 * ((y (last ds) - y (ds ! h)) / (frame (last ds) - frame (ds ! h)))
            \<and> y (last ds) + 2 * ((y (last ds) - y (ds ! h)) / (frame (last ds) - frame (ds ! h))) \<le> Y_res pp)"
    and "ds' = (if b then ds else butlast ds)"
proof -
  from assms obtain vx vy p where vx: "per_frame x ds (- 1) (int h) = Inr vx"
    and vy: "per_frame y ds (- 1) (int h) = Inr vy" and p: "getitem ds (- 1) = Inr p"
    by (auto simp: fov_end_stage_def split: sum.splits)
  from getitem_Inr_last [OF p] have p0: "p = last ds" by simp
  note e = per_frame_Inr_end [OF vx] per_frame_Inr_end [OF vy]
  from assms vx vy p show "b = (0 < x (last ds) + 2 * ((x (last ds) - x (ds ! h)) / (frame (last ds) - frame (ds ! h)))
            \<and> x (last ds) + 2 * ((x (last ds) - x (ds ! h)) / (frame (last ds) - frame (ds ! h))) \<le> X_res pp
            \<and> 0 < y (last ds) + 2 * ((y (last ds) - y (ds ! h)) / (frame (last ds) - frame (ds ! h)))
            \<and> y (last ds) + 2 * ((y (last ds) - y (ds ! h)) / (frame (last ds) - frame (ds ! h))) \<le> Y_res pp)"
    using e p0 by (auto simp: fov_end_stage_def Let_def split: if_splits)
  from assms vx vy p show "ds' = (if b then ds else butlast ds)"
    by (auto simp: fov_end_stage_def Let_def split: if_splits)
qed

lemma init_Inr:
  assumes "MeteorObsRMS_init station reference pp ds rel_path = Inr obs"
  shows "\<exists>ds1 ds2. fov_beg_stage pp ds (length ds div 2) = Inr (fov_beg obs, ds1)
           \<and> fov_end_stage pp ds1 (length ds div 2) = Inr (fov_end obs, ds2) \<and> data obs = ds2"
  using assms
  by (auto simp: MeteorObsRMS_init_def Let_def split: sum.splits prod.splits)

lemmas fov_eval = fov_beg_stage_def fov_end_stage_def per_frame_def getitem_def true_div_def
  pp_example_def pick_def MeteorPointRMS_init_def MeteorObsRMS_init_def mean_datetime_def Let_def

text \<open>
  C4 (as amended). The end-of-track check has a closed upper bound on both axes
  (\<open>x_post \<le> X_res\<close>, \<open>y_post \<le> Y_res\<close>). The start-of-track check has a closed
  upper bound on the horizontal axis (\<open>x_pre \<le> X_res\<close>) and a strict one on the
  vertical axis only (\<open>y_pre < Y_res\<close>). The lower bounds are strict in both checks.
\<close>

theorem fov_checks_bounds:
  "(fov_beg_stage pp ds h = Inr (b, ds') \<longrightarrow>
      b = (let x_pre = x (ds ! 0) - 2 * ((x (ds ! h) - x (ds ! 0)) / (frame (ds ! h) - frame (ds ! 0)));
               y_pre = y (ds ! 0) - 2 * ((y (ds ! h) - y (ds ! 0)) / (frame (ds ! h) - frame (ds ! 0)))
           in 0 < x_pre \<and> x_pre \<le> X_res pp \<and> 0 < y_pre \<and> y_pre < Y_res pp)) \<and>
   (fov_end_stage pp ds h = Inr (b, ds') \<longrightarrow>
      b = (let x_post = x (last ds) + 2 * ((x (last ds) - x (ds ! h)) / (frame (last ds) - frame (ds ! h)));
               y_post = y (last ds) + 2 * ((y (last ds) - y (ds ! h)) / (frame (last ds) - frame (ds ! h)))
           in 0 < x_post \<and> x_post \<le> X_res pp \<and> 0 < y_post \<and> y_post \<le> Y_res pp))"
  unfolding Let_def using fov_beg_stage_Inr(1) fov_end_stage_Inr(1) by blast

theorem fov_checks_bounds_witness:
  "fov_beg_stage pp_example [pick 0 722 102, pick 1 723 103, pick 2 724 104] 1
     = Inr (True, [pick 0 722 102, pick 1 723 103, pick 2 724 104]) \<and>
   fov_beg_stage pp_example [pick 0 102 578, pick 1 103 579, pick 2 104 580] 1
     = Inr (False, [pick 1 103 579, pick 2 104 580]) \<and>
   fov_end_stage pp_example [pick 0 710 570, pick 1 717 573, pick 2 718 574] 1
     = Inr (True, [pick 0 710 570, pick 1 717 573, pick 2 718 574])"
  using fov_checks_bounds [of pp_example "[pick 0 722 102, pick 1 723 103, pick 2 724 104]" 1
      True "[pick 0 722 102, pick 1 723 103, pick 2 724 104]"]
    fov_checks_bounds [of pp_example "[pick 0 710 570, pick 1 717 573, pick 2 718 574]" 1
      True "[pick 0 710 570, pick 1 717 573, pick 2 718 574]"]
  by (simp add: fov_eval)

text \<open>
  C4 as stated fails: the start-of-track check is not strict in \<open>x\<close>. A track whose
  point two frames before the first pick has \<open>x\<close> equal to the frame width is
  judged to begin inside the field of view.
\<close>

theorem fov_beg_closed_in_x:
  "fov_beg_stage pp_example [pick 0 722 102, pick 1 723 103, pick 2 724 104] 1
     = Inr (True, [pick 0 722 102, pick 1 723 103, pick 2 724 104]) \<and>
   x (pick 0 722 102)
     - 2 * ((x (pick 1 723 103) - x (pick 0 722 102))
            / (frame (pick 1 723 103) - frame (pick 0 722 102)))
     = X_res pp_example"
  by (simp add: fov_eval)

text \<open>
  C5 (as amended). For a pick sequence of at least two picks with strictly increasing
  frames, the start-of-track step does not fail. It sets \<^verbatim>\<open>fov_beg\<close> exactly when
  the point \<open>(x_pre, y_pre)\<close> extrapolated two frames before the first pick has
  \<open>0 < x_pre \<le> X_res\<close> and \<open>0 < y_pre < Y_res\<close>, that is, when the point is strictly
  inside the frame or on its right edge \<open>x_pre = X_res\<close> between top and bottom; it
  keeps the whole working sequence in that case and drops the first pick otherwise.
  When the constructor returns an object, its \<^verbatim>\<open>fov_beg\<close> is that flag, and the first
  pick is among its picks exactly when the flag is set. In particular a point at
  \<open>(-5, 10)\<close> in a 720 by 576 frame gives \<open>False\<close> with the first pick dropped, and
  one at \<open>(100, 100)\<close> gives \<open>True\<close> with the working sequence unchanged.
\<close>

theorem fov_beg_keeps_or_drops_first:
  assumes len: "2 \<le> length ds" and inc: "sorted_wrt (<) (map frame ds)"
  shows "let h = length ds div 2;
       x_pre = x (ds ! 0) - 2 * ((x (ds ! h) - x (ds ! 0)) / (frame (ds ! h) - frame (ds ! 0)));
       y_pre = y (ds ! 0) - 2 * ((y (ds ! h) - y (ds ! 0)) / (frame (ds ! h) - frame (ds ! 0)));
       inside = (0 < x_pre \<and> x_pre \<le> X_res pp \<and> 0 < y_pre \<and> y_pre < Y_res pp)
   in fov_beg_stage pp ds h = Inr (inside, if inside then ds else drop 1 ds) \<and>
      inside = (spec_strictly_inside pp x_pre y_pre
                \<or> (x_pre = X_res pp \<and> 0 < X_res pp \<and> 0 < y_pre \<and> y_pre < Y_res pp)) \<and>
      (\<forall>obs. MeteorObsRMS_init station reference pp ds rel_path = Inr obs \<longrightarrow>
         fov_beg obs = inside \<and> (ds ! 0 \<in> set (data obs)) = inside) \<and>
      (x_pre = - 5 \<and> y_pre = 10 \<and> X_res pp = 720 \<and> Y_res pp = 576 \<longrightarrow>
         fov_beg_stage pp ds h = Inr (False, drop 1 ds)) \<and>
      (x_pre = 100 \<and> y_pre = 100 \<and> X_res pp = 720 \<and> Y_res pp = 576 \<longrightarrow>
         fov_beg_stage pp ds h = Inr (True, ds))"
proof -
  define h where "h = length ds div 2"
  define inside where "inside =
    (0 < x (ds ! 0) - 2 * ((x (ds ! h) - x (ds ! 0)) / (frame (ds ! h) - frame (ds ! 0)))
     \<and> x (ds ! 0) - 2 * ((x (ds ! h) - x (ds ! 0)) / (frame (ds ! h) - frame (ds ! 0))) \<le> X_res pp
     \<and> 0 < y (ds ! 0) - 2 * ((y (ds ! h) - y (ds ! 0)) / (frame (ds ! h) - frame (ds ! 0)))
     \<and> y (ds ! 0) - 2 * ((y (ds ! h) - y (ds ! 0)) / (frame (ds ! h) - frame (ds ! 0))) < Y_res pp)"
  have stage: "fov_beg_stage pp ds h = Inr (inside, if inside then ds else drop 1 ds)"
    using fov_beg_stage_total [OF len inc, of pp]
    unfolding Let_def h_def [symmetric] inside_def [symmetric] .
  from len obtain p q rest where ds: "ds = p # q # rest"
    by (cases ds; cases "tl ds") auto
  from inc have "distinct (map frame ds)" by (simp add: strict_sorted_iff)
  then have dist: "distinct ds" by (simp add: distinct_map)
  have obj: "fov_beg obs = inside \<and> (ds ! 0 \<in> set (data obs)) = inside"
    if "MeteorObsRMS_init station reference pp ds rel_path = Inr obs" for obs
  proof -
    from init_Inr [OF that] obtain ds1 ds2
      where b: "fov_beg_stage pp ds h = Inr (fov_beg obs, ds1)"
        and e: "fov_end_stage pp ds1 h = Inr (fov_end obs, ds2)" and d: "data obs = ds2"
      unfolding h_def by blast
    from b stage have fb: "fov_beg obs = inside" and ds1: "ds1 = (if inside then ds else drop 1 ds)"
      by auto
    from fov_end_stage_Inr(2) [OF e] have ds2: "ds2 = ds1 \<or> ds2 = butlast ds1" by auto
    show ?thesis
    proof (cases inside)
      case True
      with ds1 ds2 ds have "p \<in> set ds2" by auto
      with True fb d ds show ?thesis by simp
    next
      case False
      with ds1 ds have tail: "ds1 = q # rest" by simp
      have "set (butlast ds1) \<subseteq> set ds1" by (blast dest: in_set_butlastD)
      with ds2 have "set ds2 \<subseteq> set ds1" by blast
      with tail have "set ds2 \<subseteq> set (q # rest)" by simp
      moreover from dist ds have "p \<notin> set (q # rest)" by auto
      ultimately have "p \<notin> set ds2" by blast
      with False fb d ds show ?thesis by simp
    qed
  qed
  have neg: "\<not> inside"
    if "x (ds ! 0) - 2 * ((x (ds ! h) - x (ds ! 0)) / (frame (ds ! h) - frame (ds ! 0))) = - 5"
    using that by (simp add: inside_def)
  have pos: "inside"
    if "x (ds ! 0) - 2 * ((x (ds ! h) - x (ds ! 0)) / (frame (ds ! h) - frame (ds ! 0))) = 100"
       "y (ds ! 0) - 2 * ((y (ds ! h) - y (ds ! 0)) / (frame (ds ! h) - frame (ds ! 0))) = 100"
       "X_res pp = 720" "Y_res pp = 576"
    using that by (simp add: inside_def)
  have spec: "inside =
    (spec_strictly_inside pp
       (x (ds ! 0) - 2 * ((x (ds ! h) - x (ds ! 0)) / (frame (ds ! h) - frame (ds ! 0))))
       (y (ds ! 0) - 2 * ((y (ds ! h) - y (ds ! 0)) / (frame (ds ! h) - frame (ds ! 0))))
     \<or> (x (ds ! 0) - 2 * ((x (ds ! h) - x (ds ! 0)) / (frame (ds ! h) - frame (ds ! 0)))
            = X_res pp \<and> 0 < X_res pp
         \<and> 0 < y (ds ! 0) - 2 * ((y (ds ! h) - y (ds ! 0)) / (frame (ds ! h) - frame (ds ! 0)))
         \<and> y (ds ! 0) - 2 * ((y (ds ! h) - y (ds ! 0)) / (frame (ds ! h) - frame (ds ! 0)))
             < Y_res pp))"
    unfolding inside_def spec_strictly_inside_def by auto
  have "fov_beg_stage pp ds h = Inr (inside, if inside then ds else drop 1 ds) \<and>
      inside =
        (spec_strictly_inside pp
           (x (ds ! 0) - 2 * ((x (ds ! h) - x (ds ! 0)) / (frame (ds ! h) - frame (ds ! 0))))
           (y (ds ! 0) - 2 * ((y (ds ! h) - y (ds ! 0)) / (frame (ds ! h) - frame (ds ! 0))))
         \<or> (x (ds ! 0) - 2 * ((x (ds ! h) - x (ds ! 0)) / (frame (ds ! h) - frame (ds ! 0)))
                = X_res pp \<and> 0 < X_res pp
             \<and> 0 < y (ds ! 0) - 2 * ((y (ds ! h) - y (ds ! 0)) / (frame (ds ! h) - frame (ds ! 0)))
             \<and> y (ds ! 0) - 2 * ((y (ds ! h) - y (ds ! 0)) / (frame (ds ! h) - frame (ds ! 0)))
                 < Y_res pp)) \<and>
      (\<forall>obs. MeteorObsRMS_init station reference pp ds rel_path = Inr obs \<longrightarrow>
         fov_beg obs = inside \<and> (ds ! 0 \<in> set (data obs)) = inside) \<and>
      (x (ds ! 0) - 2 * ((x (ds ! h) - x (ds ! 0)) / (frame (ds ! h) - frame (ds ! 0))) = - 5
         \<and> y (ds ! 0) - 2 * ((y (ds ! h) - y (ds ! 0)) / (frame (ds ! h) - frame (ds ! 0))) = 10
         \<and> X_res pp = 720 \<and> Y_res pp = 576 \<longrightarrow>
         fov_beg_stage pp ds h = Inr (False, drop 1 ds)) \<and>
      (x (ds ! 0) - 2 * ((x (ds ! h) - x (ds ! 0)) / (frame (ds ! h) - frame (ds ! 0))) = 100
         \<and> y (ds ! 0) - 2 * ((y (ds ! h) - y (ds ! 0)) / (frame (ds ! h) - frame (ds ! 0))) = 100
         \<and> X_res pp = 720 \<and> Y_res pp = 576 \<longrightarrow>
         fov_beg_stage pp ds h = Inr (True, ds))"
    using stage obj neg pos spec by auto
  then show ?thesis
    unfolding Let_def h_def [symmetric] inside_def [symmetric] .
qed

theorem fov_beg_keeps_or_drops_first_witness:
  "2 \<le> length track_outside \<and> sorted_wrt (<) (map frame track_outside) \<and>
   fov_beg_stage pp_example track_outside 2 = Inr (False, drop 1 track_outside) \<and>
   (\<exists>obs. MeteorObsRMS_init ''AB1234'' 0 pp_example track_outside ''AB1234/night'' = Inr obs
      \<and> \<not> fov_beg obs \<and> data obs = drop 1 track_outside) \<and>
   2 \<le> length track_inside \<and> sorted_wrt (<) (map frame track_inside) \<and>
   fov_beg_stage pp_example track_inside 2 = Inr (True, track_inside) \<and>
   (\<exists>obs. MeteorObsRMS_init ''AB1234'' 0 pp_example track_inside ''AB1234/night'' = Inr obs
      \<and> fov_beg obs \<and> data obs = track_inside)"
  using fov_beg_keeps_or_drops_first [of track_outside pp_example "''AB1234''" 0 "''AB1234/night''"]
    fov_beg_keeps_or_drops_first [of track_inside pp_example "''AB1234''" 0 "''AB1234/night''"]
  by (simp add: fov_eval track_outside_def track_inside_def)

text \<open>
  C5 as stated fails. Its source says ``strictly inside \<open>[0,W] \<times> [0,H]\<close>''. A track in
  the frame whose extrapolated point is \<open>(720, 100)\<close>, on the right edge and so not
  strictly inside, is judged to begin inside the field of view and keeps its first
  pick. Nor is the test the closed rectangle: a track in the frame whose point is
  \<open>(100, 576)\<close>, on the bottom edge, is judged to begin outside and loses its first
  pick.
\<close>

theorem fov_beg_not_spec_inside:
  "fov_beg_stage pp_example track_right_edge (length track_right_edge div 2)
     = Inr (True, track_right_edge) \<and>
   x (track_right_edge ! 0)
     - 2 * ((x (track_right_edge ! 2) - x (track_right_edge ! 0))
            / (frame (track_right_edge ! 2) - frame (track_right_edge ! 0))) = 720 \<and>
   y (track_right_edge ! 0)
     - 2 * ((y (track_right_edge ! 2) - y (track_right_edge ! 0))
            / (frame (track_right_edge ! 2) - frame (track_right_edge ! 0))) = 100 \<and>
   \<not> spec_strictly_inside pp_example 720 100 \<and>
   (case MeteorObsRMS_init ''AB1234'' 0 pp_example track_right_edge ''AB1234/night'' of
      Inl e \<Rightarrow> False
    | Inr obs \<Rightarrow> fov_beg obs \<and> data obs = track_right_edge) \<and>
   fov_beg_stage pp_example track_bottom_edge (length track_bottom_edge div 2)
     = Inr (False, drop 1 track_bottom_edge) \<and>
   x (track_bottom_edge ! 0)
     - 2 * ((x (track_bottom_edge ! 2) - x (track_bottom_edge ! 0))
            / (frame (track_bottom_edge ! 2) - frame (track_bottom_edge ! 0))) = 100 \<and>
   y (track_bottom_edge ! 0)
     - 2 * ((y (track_bottom_edge ! 2) - y (track_bottom_edge ! 0))
            / (frame (track_bottom_edge ! 2) - frame (track_bottom_edge ! 0))) = 576 \<and>
   (0::real) \<le> 100 \<and> 100 \<le> X_res pp_example \<and> (0::real) \<le> 576 \<and> 576 \<le> Y_res pp_example"
  by (simp add: fov_eval track_right_edge_def track_bottom_edge_def spec_strictly_inside_def)

text \<open>
  C10. \<^verbatim>\<open>half_index\<close> is computed from the length before trimming. For two picks
  it is 1; when the point before the first pick is outside the field of view the first
  pick is dropped, the working sequence has one pick, and \<^verbatim>\<open>self.data[half_index]\<close>
  in the end-of-track velocity raises \<^verbatim>\<open>IndexError\<close>: the constructor fails on a
  sequence that satisfies the invariant of the data model.
\<close>

theorem two_picks_IndexError:
  assumes "frame p0 < frame p1"
    and "\<not> (0 < x p0 - 2 * ((x p1 - x p0) / (frame p1 - frame p0))
           \<and> x p0 - 2 * ((x p1 - x p0) / (frame p1 - frame p0)) \<le> X_res pp
           \<and> 0 < y p0 - 2 * ((y p1 - y p0) / (frame p1 - frame p0))
           \<and> y p0 - 2 * ((y p1 - y p0) / (frame p1 - frame p0)) < Y_res pp)"
  shows "fov_beg_stage pp [p0, p1] (length [p0, p1] div 2) = Inr (False, [p1]) \<and>
         fov_end_stage pp [p1] (length [p0, p1] div 2) = Inl IndexError \<and>
         MeteorObsRMS_init station reference pp [p0, p1] rel_path = Inl IndexError"
  using assms
  by (auto simp: MeteorObsRMS_init_def mean_datetime_def fov_beg_stage_def fov_end_stage_def
      per_frame_def getitem_def true_div_def Let_def)

theorem two_picks_IndexError_witness:
  "2 \<le> length [pick 0 1 12, pick 1 4 13] \<and>
   sorted_wrt (<) (map frame [pick 0 1 12, pick 1 4 13]) \<and>
   MeteorObsRMS_init ''AB1234'' 0 pp_example [pick 0 1 12, pick 1 4 13] ''AB1234/night''
     = Inl IndexError"
  using two_picks_IndexError [of "pick 0 1 12" "pick 1 4 13" pp_example "''AB1234''" 0
      "''AB1234/night''"]
  by (simp add: pick_def MeteorPointRMS_init_def pp_example_def)

section \<open>Properties of the station filter and of the pairing\<close>

lemma findTimePairs_loop_filter:
  "findTimePairs_loop met_obs pool max_toffset found_pairs =
     found_pairs @ filter (\<lambda>met_obs2. station_code met_obs2 \<noteq> station_code met_obs
        \<and> \<bar>mean_dt met_obs - mean_dt met_obs2\<bar> \<le> max_toffset) pool"
  by (induction pool arbitrary: found_pairs) auto


lemma obs_example_init:
  "MeteorObsRMS_init station (t - 0.06) pp_example track_inside (station @ ''/night'')
     = Inr (obs_example station t)"
  by (simp add: fov_eval track_inside_def obs_example_def)

text \<open>
  C6. \<^verbatim>\<open>findTimePairs\<close> returns exactly the members of the pool, in the order of the
  pool, whose station code differs from that of the given observation and whose mean
  time differs from its mean time by at most \<^verbatim>\<open>max_toffset\<close> seconds in absolute
  value. In particular, with mean times 100, 104 and 200 seconds at three distinct
  stations and an offset of 5 seconds, pairing the first against the other two returns
  the second only.
\<close>

theorem findTimePairs_filter:
  "findTimePairs met_obs pool max_toffset =
     filter (\<lambda>met_obs2. station_code met_obs2 \<noteq> station_code met_obs
        \<and> \<bar>mean_dt met_obs - mean_dt met_obs2\<bar> \<le> max_toffset) pool \<and>
   (mean_dt a = 100 \<and> mean_dt b = 104 \<and> mean_dt c = 200
      \<and> distinct [station_code a, station_code b, station_code c]
      \<longrightarrow> findTimePairs a [b, c] 5 = [b])"
  by (auto simp: findTimePairs_def findTimePairs_loop_filter)

theorem findTimePairs_filter_witness:
  "mean_dt (obs_example ''AB1234'' 100) = 100 \<and> mean_dt (obs_example ''CD5678'' 104) = 104 \<and>
   mean_dt (obs_example ''EF9ABC'' 200) = 200 \<and>
   distinct [station_code (obs_example ''AB1234'' 100), station_code (obs_example ''CD5678'' 104),
     station_code (obs_example ''EF9ABC'' 200)] \<and>
   findTimePairs (obs_example ''AB1234'' 100)
     [obs_example ''CD5678'' 104, obs_example ''EF9ABC'' 200] 5
     = [obs_example ''CD5678'' 104]"
  using findTimePairs_filter [of "obs_example ''AB1234'' 100"
      "[obs_example ''CD5678'' 104, obs_example ''EF9ABC'' 200]" 5
      "obs_example ''AB1234'' 100" "obs_example ''CD5678'' 104" "obs_example ''EF9ABC'' 200"]
  by (simp add: obs_example_def)

lemma loadStations_loop_filter:
  "loadStations_loop entries station_list out =
     (station_list @ map fst (filter (\<lambda>(dir_name, isdir). isdir \<and> re_match_station dir_name) entries),
      out @ map (\<lambda>(dir_name, isdir).
                   if re_match_station dir_name then Using_station dir_name
                   else Skipping_directory dir_name)
              (filter snd entries))"
  by (induction entries arbitrary: station_list out) auto

lemma re_match_station_six:
  "length dir_name = 6 \<Longrightarrow>
     re_match_station dir_name
       = (list_all upper_AZ (take 2 dir_name)
          \<and> list_all (\<lambda>c. upper_AZ c \<or> digit_09 c) (drop 2 dir_name))"
  by (simp add: re_match_station_def)

lemma station_examples:
  "loadStations [(''AB1234'', True), (''ab1234'', True), (''A1234'', True), (''ABCDEFG'', True)]
     = ([''AB1234''], [Using_station ''AB1234'', Skipping_directory ''ab1234'',
          Skipping_directory ''A1234'', Skipping_directory ''ABCDEFG''])"
  by (simp add: loadStations_def re_match_station_def upper_AZ_def digit_09_def)

text \<open>
  C7. The claim accepts a directory exactly when its name is two upper-case letters
  followed by four upper-case letters or digits. The pattern of \<^verbatim>\<open>loadStations\<close>
  ends in \<^verbatim>\<open>$\<close>, which \<^verbatim>\<open>re.match\<close> also lets match before a final newline: a
  directory whose name is such a code followed by a newline, seven characters long, is
  accepted as a station.
\<close>

theorem loadStations_trailing_newline:
  "loadStations [(''AB1234'' @ [CHR 0x0A], True)]
     = ([''AB1234'' @ [CHR 0x0A]], [Using_station (''AB1234'' @ [CHR 0x0A])])"
  by (simp add: loadStations_def re_match_station_def upper_AZ_def digit_09_def)

section \<open>Properties of the loader\<close>




lemma load_unit_missing:
  assumes "os_listdir env proc_path = Inr names"
    and "fst (find_data_files names None None) = None \<or> snd (find_data_files names None None) = None"
  shows "load_unit env dumps station rel_path proc_path met_obs_list self
     = Inr (met_obs_list,
         self\<lparr>printed := printed self @ [Skipping_missing rel_path],
              db := addProcessedDir (db self) station rel_path\<rparr>)"
  using assms by (auto simp: load_unit_def split: prod.splits)


lemma load_unit_not_a_directory:
  "\<not> isdir env proc_path \<Longrightarrow>
     load_unit env dumps station rel_path proc_path met_obs_list self = Inl OSError"
  by (simp add: load_unit_def os_listdir_def)

lemmas load_eval = loadUnprocessedObservations_def load_entry_def load_unit_def os_listdir_def
  is_ftpdetectinfo_def is_platepars_def startswith_def endswith_def addProcessedDir_def save_eq



lemma load_unit_missing_keeps_disk:
  assumes "os_listdir env proc_path = Inr names"
    and "fst (find_data_files names None None) = None
           \<or> snd (find_data_files names None None) = None"
    and "load_entry env dumps (station, rel_path, proc_path, night_dt) dt_range met_obs_list self
           = Inr (met_obs_list', self')"
  shows "disk self' = disk self \<and> met_obs_list' = met_obs_list"
  using assms(3) load_unit_missing [OF assms(1,2), of dumps station rel_path met_obs_list self]
  by (auto simp: load_entry_def split: if_splits)

text \<open>
  C3. The claim has the ledger saved to disk at the point where a unit with missing
  input files is marked. In \<^verbatim>\<open>loadUnprocessedObservations\<close> the call of
  \<^verbatim>\<open>self.db.save()\<close> stands after the \<^verbatim>\<open>continue\<close> of that branch: for a
  processing list of one folder without data files the unit is marked in memory, the
  diagnostic is printed and no observation is returned, but the disk still has no
  ledger file.
\<close>

theorem missing_files_not_saved:
  "(case loadUnprocessedObservations env_example dumps_example
           [(''AB1234'', ''AB1234/broken'', ''/data/AB1234/broken'', None)] None handle_example of
      Inl e \<Rightarrow> False
    | Inr (met_obs_list, self) \<Rightarrow>
        met_obs_list = []
        \<and> processed_dirs (db self) ''AB1234'' = Some [''AB1234/broken'']
        \<and> printed self = [Skipping_missing ''AB1234/broken'']
        \<and> disk self (db_file_path (db self)) = None)"
  by (simp add: load_eval env_example_def handle_example_def ledger_example_def
      night_example_def)

lemma present_files_saved:
  "(case loadUnprocessedObservations env_example dumps_example
           [(''AB1234'', ''AB1234/'' @ night_example, ''/data/AB1234/'' @ night_example,
               Some 1562527715)] None handle_example of
      Inl e \<Rightarrow> False
    | Inr (met_obs_list, self) \<Rightarrow>
        met_obs_list
          = [obs_example ''AB1234'' 100\<lparr>rel_proc_path := ''AB1234/'' @ night_example\<rparr>]
        \<and> processed_dirs (db self) ''AB1234'' = Some []
        \<and> disk self (db_file_path (db self)) = Some ''{new ledger}'')"
  by (simp add: load_eval env_example_def handle_example_def ledger_example_def
      dumps_example_def fov_eval track_inside_def obs_example_def night_example_def)

lemma regular_file_unit_raises:
  "loadUnprocessedObservations env_example dumps_example
     [(''AB1234'', ''AB1234/notes.txt'', ''/data/AB1234/notes.txt'', None)] None handle_example
   = Inl OSError"
  by (simp add: load_eval env_example_def night_example_def)

end
